theory Spec2Isabelle
  imports Complex_Main "HOL-Library.Sublist"
begin

section \<open>Python strings\<close>

text \<open>
  Python's \<open>str\<close> is modelled as \<open>string\<close>. The text of a caught exception,
  \<open>str(e)\<close>, is an arbitrary string.
\<close>

type_synonym exc = string

text \<open>
  \<open>str.isspace\<close> on the code points below 256: tab, line feed, vertical tab, form feed,
  carriage return, the four separators 0x1C..0x1F, space, NEL (0x85) and the
  no-break space (0xA0).
\<close>

definition isspace :: "char \<Rightarrow> bool" where
  "isspace c = ((of_char c :: nat) \<in> set [9, 10, 11, 12, 13, 28, 29, 30, 31, 32, 133, 160])"

text \<open>\<open>s.strip()\<close>: leading and trailing whitespace removed.\<close>

definition strip :: "string \<Rightarrow> string" where
  "strip s = rev (dropWhile isspace (rev (dropWhile isspace s)))"

text \<open>
  \<open>s.split()\<close> with no separator: skip a run of whitespace, take the run of
  non-whitespace characters after it as one token, go on with the rest.
\<close>

function split :: "string \<Rightarrow> string list" where
  "split s =
     (let s' = dropWhile isspace s
      in if s' = [] then []
         else takeWhile (\<lambda>c. \<not> isspace c) s' # split (dropWhile (\<lambda>c. \<not> isspace c) s'))"
  by pat_completeness auto
termination
proof (relation "measure length")
  show "wf (measure length)" by simp
next
  fix s s' :: string
  assume s': "s' = dropWhile isspace s" and ne: "s' \<noteq> []"
  from ne obtain c cs where cs: "s' = c # cs" by (cases s') auto
  from ne s' have "\<not> isspace (hd s')" using hd_dropWhile [of isspace s] by simp
  with cs have "dropWhile (\<lambda>c. \<not> isspace c) s' = dropWhile (\<lambda>c. \<not> isspace c) cs" by simp
  then have "length (dropWhile (\<lambda>c. \<not> isspace c) s') \<le> length cs"
    by (simp add: length_dropWhile_le)
  also have "length cs < length s'" using cs by simp
  also have "length s' \<le> length s" using s' by (simp add: length_dropWhile_le)
  finally show "(dropWhile (\<lambda>c. \<not> isspace c) s', s) \<in> measure length" by simp
qed

declare split.simps [simp del]

text \<open>\<open>sep.join(xs)\<close>.\<close>

fun join :: "string \<Rightarrow> string list \<Rightarrow> string" where
  "join sep [] = []"
| "join sep [x] = x"
| "join sep (x # y # ys) = x @ sep @ join sep (y # ys)"

text \<open>\<open>s.endswith(suf)\<close>: an exact, case-sensitive comparison of the last characters.\<close>

definition endswith :: "string \<Rightarrow> string \<Rightarrow> bool" where
  "endswith s suf = suffix suf s"

text \<open>\<open>str(n)\<close> of a non-negative integer: its decimal digits.\<close>

definition digit_char :: "nat \<Rightarrow> char" where
  "digit_char d = ''0123456789'' ! d"

fun str_nat :: "nat \<Rightarrow> string" where
  "str_nat n = (if n < 10 then [digit_char n] else str_nat (n div 10) @ [digit_char (n mod 10)])"

declare str_nat.simps [simp del]

text \<open>
  \<open>os.path.join(a, b)\<close> on a POSIX system: an absolute second component replaces the
  first, otherwise the two are joined with one slash.
\<close>

definition os_path_join :: "string \<Rightarrow> string \<Rightarrow> string" where
  "os_path_join a b =
     (if b \<noteq> [] \<and> hd b = CHR ''/'' then b
      else if a = [] \<or> last a = CHR ''/'' then a @ b
      else a @ ''/'' @ b)"

section \<open>Responses and the document store\<close>

text \<open>
  A handler returns \<open>jsonify(dict), code\<close>: the status code and the JSON object, kept
  as the list of its keys and string values in the order the source writes them.
\<close>

record response =
  status :: nat
  body :: "(string \<times> string) list"

definition jsonify :: "(string \<times> string) list \<Rightarrow> nat \<Rightarrow> response" where
  "jsonify kvs code = \<lparr>status = code, body = kvs\<rparr>"

text \<open>The two module-level globals \<open>uploaded_filename\<close> and \<open>document_text\<close>.\<close>

record store =
  uploaded_filename :: string
  document_text :: string

definition initial_store :: store where
  "initial_store = \<lparr>uploaded_filename = [], document_text = []\<rparr>"

definition UPLOAD_FOLDER :: string where
  "UPLOAD_FOLDER = ''upload''"

section \<open>Text extraction\<close>

text \<open>
  The libraries the extractors call are parameters of the model. Each call either raises
  (\<open>Inl\<close>, with the text of the exception) or returns:
  \<^item> \<open>secure_filename\<close>: werkzeug's sanitiser of a client-supplied file name;
  \<^item> \<open>file_save\<close>: \<open>file.save(path)\<close>, \<open>None\<close> when the file was written;
  \<^item> \<open>fitz_open\<close>: the \<open>get_text("text")\<close> of every page of the PDF at the path, in page
    order (\<open>Inl\<close> when opening the file or reading a page raises);
  \<^item> \<open>docx_Document\<close>: the text of every paragraph of the document at the path;
  \<^item> \<open>read_csv\<close>, \<open>read_excel\<close>: the pandas data frame parsed from the path;
  \<^item> \<open>to_string\<close>: \<open>df.to_string(index=...)\<close>, the frame rendered as text, the flag
    saying whether the row index column is printed.
\<close>

record 'df libs =
  secure_filename :: "string \<Rightarrow> string"
  file_save :: "string \<Rightarrow> exc option"
  fitz_open :: "string \<Rightarrow> exc + string list"
  docx_Document :: "string \<Rightarrow> exc + string list"
  read_csv :: "string \<Rightarrow> exc + 'df"
  read_excel :: "string \<Rightarrow> exc + 'df"
  to_string :: "'df \<Rightarrow> bool \<Rightarrow> exc + string"

definition extract_text_from_pdf :: "'df libs \<Rightarrow> string \<Rightarrow> exc + string" where
  "extract_text_from_pdf env file_path =
     (case fitz_open env file_path of
        Inl e \<Rightarrow> Inl e
      | Inr pdf \<Rightarrow> Inr (foldl (\<lambda>text page. text @ page @ ''\<newline>'') [] pdf))"

definition extract_text_from_docx :: "'df libs \<Rightarrow> string \<Rightarrow> exc + string" where
  "extract_text_from_docx env file_path =
     (case docx_Document env file_path of
        Inl e \<Rightarrow> Inl e
      | Inr paragraphs \<Rightarrow> Inr (join ''\<newline>'' paragraphs))"

text \<open>
  The two tabular extractors catch every exception of their body, so their result is a
  plain string: they cannot raise.
\<close>

definition extract_text_from_csv :: "'df libs \<Rightarrow> string \<Rightarrow> string" where
  "extract_text_from_csv env file_path =
     (case read_csv env file_path of
        Inl e \<Rightarrow> ''Error reading CSV: '' @ e
      | Inr df \<Rightarrow>
          (case to_string env df False of
             Inl e \<Rightarrow> ''Error reading CSV: '' @ e
           | Inr text \<Rightarrow> text))"

definition extract_text_from_excel :: "'df libs \<Rightarrow> string \<Rightarrow> string" where
  "extract_text_from_excel env file_path =
     (case read_excel env file_path of
        Inl e \<Rightarrow> ''Error reading Excel file: '' @ e
      | Inr df \<Rightarrow>
          (case to_string env df False of
             Inl e \<Rightarrow> ''Error reading Excel file: '' @ e
           | Inr text \<Rightarrow> text))"

definition extract_text :: "'df libs \<Rightarrow> string \<Rightarrow> exc + string" where
  "extract_text env file_path =
     (if endswith file_path ''.pdf'' then extract_text_from_pdf env file_path
      else if endswith file_path ''.docx'' then extract_text_from_docx env file_path
      else if endswith file_path ''.csv'' then Inr (extract_text_from_csv env file_path)
      else if endswith file_path ''.xlsx'' \<or> endswith file_path ''.xls''
        then Inr (extract_text_from_excel env file_path)
      else Inr [])"

section \<open>The upload handler\<close>

text \<open>
  \<open>upload_file\<close>: the argument \<open>file\<close> is \<open>None\<close> when the request has no part named
  "file", otherwise the file name the client sent. The two globals are assigned inside
  the \<open>try\<close> block, one after the other, before the extracted text is inspected: an
  exception raised by \<open>extract_text\<close> leaves the file name already assigned, and the
  branch for unreadable content returns after both assignments.
\<close>

definition upload_file :: "'df libs \<Rightarrow> string option \<Rightarrow> store \<Rightarrow> response \<times> store" where
  "upload_file env file st =
     (case file of
        None \<Rightarrow> (jsonify [(''message'', ''No file uploaded'')] 400, st)
      | Some name \<Rightarrow>
          if name = [] then (jsonify [(''message'', ''No selected file'')] 400, st)
          else
            let filename = secure_filename env name;
                file_path = os_path_join UPLOAD_FOLDER filename
            in case file_save env file_path of
                 Some e \<Rightarrow>
                   (jsonify [(''message'', ''File upload failed''), (''error'', e)] 500, st)
               | None \<Rightarrow>
                   let st1 = st\<lparr>uploaded_filename := filename\<rparr>
                   in case extract_text env file_path of
                        Inl e \<Rightarrow>
                          (jsonify [(''message'', ''File upload failed''), (''error'', e)] 500,
                           st1)
                      | Inr text \<Rightarrow>
                          let st2 = st1\<lparr>document_text := text\<rparr>
                          in if strip (document_text st2) \<noteq> []
                             then (jsonify [(''message'', ''File uploaded successfully''),
                                            (''redirect'', ''process.html'')] 200, st2)
                             else (jsonify [(''message'',
                                     ''File uploaded but no readable content found'')] 400,
                                   st2))"

section \<open>The analysis handler\<close>

text \<open>
  \<open>process_file\<close> reads \<open>document_text\<close> and assigns nothing. An empty string is
  Python's only falsy string.
\<close>

definition process_file :: "store \<Rightarrow> response \<times> store" where
  "process_file st =
     (if document_text st = [] then (jsonify [(''message'', ''No document analyzed yet'')] 400, st)
      else
        let word_count = length (split (document_text st));
            analysis_result = ''Analysis successful! Word count: '' @ str_nat word_count
        in (jsonify [(''message'', analysis_result),
                     (''content'', take 500 (document_text st))] 200, st))"

section \<open>The question handler and the completion service\<close>

text \<open>The four settings read from the environment; \<open>os.getenv\<close> gives \<open>None\<close> for an unset one.\<close>

record azure_config =
  AZURE_OPENAI_ENDPOINT :: "string option"
  AZURE_OPENAI_KEY :: "string option"
  AZURE_DEPLOYMENT_NAME :: "string option"
  AZURE_API_VERSION :: "string option"

text \<open>What \<open>client.chat.completions.create\<close> is called with: each message is a role and a content.\<close>

record chat_request =
  model :: "string option"
  messages :: "(string \<times> string) list"
  temperature :: real

text \<open>
  The completion library is a parameter: \<open>AzureOpenAI\<close> builds a client from the key, the
  endpoint and the API version or raises; \<open>create\<close> sends one request and gives the message
  contents of the choices of the response, or raises.
\<close>

record 'client openai =
  AzureOpenAI :: "string option \<Rightarrow> string option \<Rightarrow> string option \<Rightarrow> exc + 'client"
  create :: "'client \<Rightarrow> chat_request \<Rightarrow> exc + string list"

definition system_prompt :: string where
  "system_prompt = ''You are Financial assistant that answers questions based on the uploaded document.''"

definition user_prompt :: "string \<Rightarrow> string \<Rightarrow> string" where
  "user_prompt question context_text =
     ''Document: '' @ take 2000 context_text @ ''...\<newline>\<newline>Question: '' @ question"

definition completion_request :: "azure_config \<Rightarrow> string \<Rightarrow> string \<Rightarrow> chat_request" where
  "completion_request cfg question context_text =
     \<lparr>model = AZURE_DEPLOYMENT_NAME cfg,
      messages = [(''system'', system_prompt), (''user'', user_prompt question context_text)],
      temperature = 0.5\<rparr>"

text \<open>
  \<open>query_gpt4\<close> returns the answer together with the requests it sent to the completion
  service (none when building the client raised). \<open>response.choices[0]\<close> on a response with
  no choice raises IndexError, which the handler of the function catches like any other.
\<close>

definition query_gpt4 ::
  "azure_config \<Rightarrow> 'client openai \<Rightarrow> string \<Rightarrow> string \<Rightarrow> string \<times> chat_request list" where
  "query_gpt4 cfg api question context_text =
     (case AzureOpenAI api (AZURE_OPENAI_KEY cfg) (AZURE_OPENAI_ENDPOINT cfg) (AZURE_API_VERSION cfg) of
        Inl e \<Rightarrow> (''Error querying GPT-4: '' @ e, [])
      | Inr client \<Rightarrow>
          (let req = completion_request cfg question context_text
           in case create api client req of
                Inl e \<Rightarrow> (''Error querying GPT-4: '' @ e, [req])
              | Inr choices \<Rightarrow>
                  (case choices of
                     [] \<Rightarrow> (''Error querying GPT-4: list index out of range'', [req])
                   | content # _ \<Rightarrow> (content, [req]))))"

text \<open>
  The body of an Ask request is a JSON object; the value under "question", when the key
  is there, is a string or something else (on which \<open>.strip()\<close> raises AttributeError,
  which no handler catches: the framework answers 500).
\<close>

datatype json_value = JString string | JOther

definition internal_server_error :: response where
  "internal_server_error = \<lparr>status = 500, body = []\<rparr>"

text \<open>
  \<open>ask_question\<close>: returns the response, the requests sent to the completion service, and
  the store (which it only reads). \<open>jsonify\<close> without a code is a 200.
\<close>

definition ask_question ::
  "azure_config \<Rightarrow> 'client openai \<Rightarrow> json_value option \<Rightarrow> store
     \<Rightarrow> response \<times> chat_request list \<times> store" where
  "ask_question cfg api data st =
     (if document_text st = [] then (jsonify [(''message'', ''No document analyzed yet'')] 400, [], st)
      else
        (case (case data of None \<Rightarrow> JString [] | Some v \<Rightarrow> v) of
           JOther \<Rightarrow> (internal_server_error, [], st)
         | JString q \<Rightarrow>
             (let question = strip q
              in if question = [] then (jsonify [(''message'', ''Please ask a question'')] 400, [], st)
                 else
                   (let (answer, sent) = query_gpt4 cfg api question (document_text st)
                    in (jsonify [(''question'', question), (''answer'', answer)] 200, sent, st)))))"

section \<open>Sequences of requests\<close>

text \<open>
  Requests are handled one at a time, each on the store the previous one left. An upload
  carries the behaviour of the file system and the parsers at that moment, a question
  the behaviour of the completion service.
\<close>

datatype ('df, 'client) request =
    Upload "'df libs" "string option"
  | Process
  | Ask "'client openai" "json_value option"

definition handle ::
  "azure_config \<Rightarrow> ('df, 'client) request \<Rightarrow> store \<Rightarrow> response \<times> store" where
  "handle cfg r st =
     (case r of
        Upload env file \<Rightarrow> upload_file env file st
      | Process \<Rightarrow> process_file st
      | Ask api data \<Rightarrow> (let (resp, sent, st') = ask_question cfg api data st in (resp, st')))"

fun run ::
  "azure_config \<Rightarrow> ('df, 'client) request list \<Rightarrow> store \<Rightarrow> response list \<times> store" where
  "run cfg [] st = ([], st)"
| "run cfg (r # rs) st =
     (let (resp, st1) = handle cfg r st;
          (resps, st2) = run cfg rs st1
      in (resp # resps, st2))"

text \<open>The responses of the uploads of a sequence, in order.\<close>

fun upload_statuses :: "('df, 'client) request list \<Rightarrow> response list \<Rightarrow> nat list" where
  "upload_statuses (Upload env file # rs) (resp # resps) = status resp # upload_statuses rs resps"
| "upload_statuses (r # rs) (resp # resps) = upload_statuses rs resps"
| "upload_statuses rs resps = []"

text \<open>
  The text an upload assigns to \<open>document_text\<close>, when it gets that far: the file is
  there, has a name, was saved and \<open>extract_text\<close> returned.
\<close>

definition upload_text :: "'df libs \<Rightarrow> string option \<Rightarrow> string option" where
  "upload_text env file =
     (case file of
        None \<Rightarrow> None
      | Some name \<Rightarrow>
          if name = [] then None
          else
            (let file_path = os_path_join UPLOAD_FOLDER (secure_filename env name)
             in case file_save env file_path of
                  Some e \<Rightarrow> None
                | None \<Rightarrow> (case extract_text env file_path of Inl e \<Rightarrow> None | Inr text \<Rightarrow> Some text)))"

text \<open>
  A request that leaves \<open>document_text\<close> empty when it was: anything but an upload that
  assigns a non-empty text.
\<close>

fun extracts_nothing :: "('df, 'client) request \<Rightarrow> bool" where
  "extracts_nothing (Upload env file) =
     (case upload_text env file of None \<Rightarrow> True | Some text \<Rightarrow> text = [])"
| "extracts_nothing Process = True"
| "extracts_nothing (Ask api data) = True"

section \<open>Notions of the specification\<close>

text \<open>
  The number of whitespace-delimited tokens of a text, counted without splitting it: a
  token starts at every character that is not whitespace and is the first of the text
  or follows a whitespace character. The flag says whether the previous character was
  whitespace (or there was none).
\<close>

fun token_starts :: "bool \<Rightarrow> string \<Rightarrow> nat" where
  "token_starts prev_space [] = 0"
| "token_starts prev_space (c # cs) =
     (if \<not> isspace c \<and> prev_space then 1 else 0) + token_starts (isspace c) cs"

definition whitespace_delimited_tokens :: "string \<Rightarrow> nat" where
  "whitespace_delimited_tokens s = token_starts True s"

text \<open>ASCII lower-casing, and the extensions the dispatch of \<open>extract_text\<close> knows.\<close>

definition ascii_lower :: "char \<Rightarrow> char" where
  "ascii_lower c =
     (case map_of (zip ''ABCDEFGHIJKLMNOPQRSTUVWXYZ'' ''abcdefghijklmnopqrstuvwxyz'') c of
        None \<Rightarrow> c
      | Some l \<Rightarrow> l)"

definition supported_extensions :: "string list" where
  "supported_extensions = [''.pdf'', ''.docx'', ''.csv'', ''.xlsx'', ''.xls'']"

text \<open>
  An upper- or mixed-case variant of a supported extension: it lower-cases to the
  extension and is not the extension itself.
\<close>

definition case_variant :: "string \<Rightarrow> bool" where
  "case_variant v = (map ascii_lower v \<in> set supported_extensions \<and> v \<notin> set supported_extensions)"

section \<open>Concrete worlds\<close>

text \<open>
  A data frame is taken to be its header row and its data rows here; the rendering
  below puts two spaces between cells and starts each row with its number when asked to.
\<close>

type_synonym frame = "string list \<times> string list list"

definition render_frame :: "frame \<Rightarrow> bool \<Rightarrow> exc + string" where
  "render_frame df index =
     Inr (join ''\<newline>''
       (join ''  '' ((if index then [[]] else []) @ fst df) #
        map (\<lambda>(i, row). join ''  '' ((if index then [str_nat i] else []) @ row))
            (zip [0 ..< length (snd df)] (snd df))))"

text \<open>
  \<open>disk\<close>: a file system on which every save succeeds and every file name is already
  clean; \<open>blank.pdf\<close> is a one-page scan without text layer, \<open>report.pdf\<close> and
  \<open>memo.docx\<close> have text, \<open>broken.docx\<close> cannot be opened, \<open>sales.csv\<close> and
  \<open>book.xlsx\<close> parse, \<open>bad.csv\<close> and \<open>bad.xlsx\<close> do not.
\<close>

definition disk :: "frame libs" where
  "disk =
     \<lparr>secure_filename = (\<lambda>name. name),
      file_save = (\<lambda>path. None),
      fitz_open = (\<lambda>path.
        if path = ''upload/blank.pdf'' then Inr [[]]
        else if path = ''upload/report.pdf'' then Inr [''Revenue: 100'', ''Costs: 40'']
        else Inl ''cannot open file''),
      docx_Document = (\<lambda>path.
        if path = ''upload/memo.docx'' then Inr [''Quarterly memo'', ''Profit rose.'']
        else Inl ''Package not found''),
      read_csv = (\<lambda>path.
        if path = ''upload/sales.csv'' then Inr ([''item'', ''qty''], [[''pen'', ''3'']])
        else Inl ''No columns to parse from file''),
      read_excel = (\<lambda>path.
        if path = ''upload/book.xlsx'' then Inr ([''key'', ''value''], [[''a'', ''1''], [''b'', ''2'']])
        else Inl ''File is not a zip file''),
      to_string = render_frame\<rparr>"

text \<open>\<open>full_disk\<close>: as \<open>disk\<close>, but no file can be written.\<close>

definition full_disk :: "frame libs" where
  "full_disk = disk\<lparr>file_save := (\<lambda>path. Some ''No space left on device'')\<rparr>"

text \<open>
  \<open>long_text\<close>: 600 characters in three words, the third of which starts after the
  500th character.
\<close>

definition long_text :: string where
  "long_text =
     replicate 300 CHR ''a'' @ '' '' @ replicate 250 CHR ''b'' @ '' '' @ replicate 48 CHR ''c''"

definition config :: azure_config where
  "config =
     \<lparr>AZURE_OPENAI_ENDPOINT = Some ''https://example.openai.azure.com'',
      AZURE_OPENAI_KEY = Some ''key'',
      AZURE_DEPLOYMENT_NAME = Some ''gpt-4'',
      AZURE_API_VERSION = Some ''2024-02-01''\<rparr>"

text \<open>
  Four completion services: one that answers, one whose connection fails, one whose
  response has no choice, and one whose client cannot be built.
\<close>

definition answering :: "unit openai" where
  "answering = \<lparr>AzureOpenAI = (\<lambda>k e v. Inr ()), create = (\<lambda>c r. Inr [''42'', ''43''])\<rparr>"

definition offline :: "unit openai" where
  "offline = \<lparr>AzureOpenAI = (\<lambda>k e v. Inr ()), create = (\<lambda>c r. Inl ''Connection error.'')\<rparr>"

definition choiceless :: "unit openai" where
  "choiceless = \<lparr>AzureOpenAI = (\<lambda>k e v. Inr ()), create = (\<lambda>c r. Inr [])\<rparr>"

definition keyless :: "unit openai" where
  "keyless = \<lparr>AzureOpenAI = (\<lambda>k e v. Inl ''Missing credentials''), create = (\<lambda>c r. Inr [''42''])\<rparr>"

section \<open>Facts about the string operations\<close>

lemma all_dropWhile_iff: "(\<forall>x\<in>set (dropWhile P s). P x) \<longleftrightarrow> (\<forall>x\<in>set s. P x)"
proof
  assume a: "\<forall>x\<in>set (dropWhile P s). P x"
  have "dropWhile P s = []"
  proof (rule ccontr)
    assume ne: "dropWhile P s \<noteq> []"
    then have "\<not> P (hd (dropWhile P s))" by (rule hd_dropWhile)
    moreover from ne have "hd (dropWhile P s) \<in> set (dropWhile P s)" by simp
    ultimately show False using a by blast
  qed
  then show "\<forall>x\<in>set s. P x" by (simp add: dropWhile_eq_Nil_conv)
next
  assume "\<forall>x\<in>set s. P x"
  then show "\<forall>x\<in>set (dropWhile P s). P x" by (blast dest: set_dropWhileD)
qed

lemma strip_eq_Nil_iff: "strip s = [] \<longleftrightarrow> (\<forall>c\<in>set s. isspace c)"
  by (simp add: strip_def dropWhile_eq_Nil_conv all_dropWhile_iff)

lemma strip_nonblank_nonempty: "strip s \<noteq> [] \<Longrightarrow> s \<noteq> []"
  by (auto simp: strip_eq_Nil_iff)

lemma token_starts_skip_space:
  "token_starts True (dropWhile isspace s) = token_starts True s"
  by (induction s) auto

lemma token_starts_skip_word:
  "token_starts True (dropWhile (\<lambda>c. \<not> isspace c) s) = token_starts False s"
  by (induction s) auto

lemma length_split: "length (split s) = token_starts True s"
proof (induction s rule: split.induct)
  case (1 s)
  show ?case
  proof (cases "dropWhile isspace s")
    case Nil
    have "token_starts True s = token_starts True (dropWhile isspace s)"
      by (simp only: token_starts_skip_space)
    also have "\<dots> = 0" by (simp only: Nil token_starts.simps)
    finally show ?thesis using Nil by (simp add: split.simps [of s])
  next
    case (Cons c cs)
    then have nsp: "\<not> isspace c" using hd_dropWhile [of isspace s] by auto
    have "length (split (dropWhile (\<lambda>c. \<not> isspace c) (c # cs)))
            = token_starts True (dropWhile (\<lambda>c. \<not> isspace c) (c # cs))"
      by (rule "1.IH" [of "c # cs"]) (simp_all only: Cons list.distinct not_False_eq_True)
    also have "\<dots> = token_starts False cs"
      using nsp by (simp add: token_starts_skip_word)
    finally have "length (split s) = Suc (token_starts False cs)"
      using Cons by (simp add: split.simps [of s])
    moreover have "token_starts True s = Suc (token_starts False cs)"
      using token_starts_skip_space [of s] Cons nsp by simp
    ultimately show ?thesis by simp
  qed
qed


lemma split_unfold_Nil: "dropWhile isspace s = [] \<Longrightarrow> split s = []"
  by (simp add: split.simps [of s])

lemma split_unfold_Cons:
  "dropWhile isspace s = c # cs \<Longrightarrow>
     split s = takeWhile (\<lambda>c. \<not> isspace c) (c # cs) # split (dropWhile (\<lambda>c. \<not> isspace c) (c # cs))"
  by (simp add: split.simps [of s])

lemma split_tokens: "t \<in> set (split s) \<Longrightarrow> t \<noteq> [] \<and> (\<forall>c\<in>set t. \<not> isspace c)"
proof (induction s rule: split.induct)
  case (1 s)
  show ?case
  proof (cases "dropWhile isspace s")
    case Nil
    then have "split s = []" by (rule split_unfold_Nil)
    with "1.prems" show ?thesis by simp
  next
    case (Cons c cs)
    have nsp: "\<not> isspace c" using hd_dropWhile [of isspace s] Cons by simp
    have IH: "t \<in> set (split (dropWhile (\<lambda>c. \<not> isspace c) (c # cs)))
                \<Longrightarrow> t \<noteq> [] \<and> (\<forall>c\<in>set t. \<not> isspace c)"
      by (rule "1.IH" [of "c # cs"]) (simp_all only: Cons list.distinct not_False_eq_True)
    have "t \<in> set (takeWhile (\<lambda>c. \<not> isspace c) (c # cs) # split (dropWhile (\<lambda>c. \<not> isspace c) (c # cs)))"
      using "1.prems" split_unfold_Cons [OF Cons] by simp
    then consider "t = takeWhile (\<lambda>c. \<not> isspace c) (c # cs)"
      | "t \<in> set (split (dropWhile (\<lambda>c. \<not> isspace c) (c # cs)))"
      by (simp only: set_simps insert_iff) blast
    then show ?thesis
    proof cases
      case 1
      have "t = c # takeWhile (\<lambda>c. \<not> isspace c) cs" using 1 nsp by simp
      moreover have "\<forall>x\<in>set (takeWhile (\<lambda>c. \<not> isspace c) cs). \<not> isspace x"
        by (blast dest: set_takeWhileD)
      ultimately show ?thesis using nsp by simp
    next
      case 2
      then show ?thesis by (rule IH)
    qed
  qed
qed

section \<open>Facts about the dispatch and the upload handler\<close>

lemma endswith_same_length:
  "endswith p a \<Longrightarrow> endswith p b \<Longrightarrow> length a = length b \<Longrightarrow> a = b"
  by (auto simp: endswith_def suffix_def)

lemma endswith_comparable:
  "endswith p a \<Longrightarrow> endswith p b \<Longrightarrow> suffix a b \<or> suffix b a"
  unfolding endswith_def by (rule suffix_same_cases) auto

lemma endswith_append: "endswith b v \<Longrightarrow> endswith (a @ b) v"
  by (simp add: endswith_def suffix_appendI)

lemma endswith_os_path_join:
  assumes "endswith b v"
  shows "endswith (os_path_join a b) v"
proof -
  have "os_path_join a b = b \<or> os_path_join a b = a @ b \<or> os_path_join a b = (a @ ''/'') @ b"
    by (simp add: os_path_join_def)
  with assms show ?thesis
    using endswith_append [of b v a] endswith_append [of b v "a @ ''/''"] by auto
qed

lemma csv_dispatch:
  assumes "endswith p ''.csv''"
  shows "\<not> endswith p ''.pdf''" and "\<not> endswith p ''.docx''"
proof -
  show "\<not> endswith p ''.pdf''"
    using endswith_same_length [OF assms, of "''.pdf''"] by auto
  show "\<not> endswith p ''.docx''"
    using endswith_comparable [OF assms, of "''.docx''"] by (auto simp: suffix_to_prefix)
qed

lemma excel_dispatch:
  assumes "endswith p ''.xlsx'' \<or> endswith p ''.xls''"
  shows "\<not> endswith p ''.pdf''" and "\<not> endswith p ''.docx''" and "\<not> endswith p ''.csv''"
proof -
  show "\<not> endswith p ''.pdf''"
    using assms endswith_same_length [of p "''.xls''" "''.pdf''"]
      endswith_comparable [of p "''.xlsx''" "''.pdf''"] by (auto simp: suffix_to_prefix)
  show "\<not> endswith p ''.docx''"
    using assms endswith_same_length [of p "''.xlsx''" "''.docx''"]
      endswith_comparable [of p "''.xls''" "''.docx''"] by (auto simp: suffix_to_prefix)
  show "\<not> endswith p ''.csv''"
    using assms endswith_same_length [of p "''.xls''" "''.csv''"]
      endswith_comparable [of p "''.xlsx''" "''.csv''"] by (auto simp: suffix_to_prefix)
qed

lemma extract_text_csv:
  "endswith p ''.csv'' \<Longrightarrow> extract_text env p = Inr (extract_text_from_csv env p)"
  by (simp add: extract_text_def csv_dispatch)

lemma extract_text_excel:
  "endswith p ''.xlsx'' \<or> endswith p ''.xls'' \<Longrightarrow>
     extract_text env p = Inr (extract_text_from_excel env p)"
  using excel_dispatch [of p] by (auto simp: extract_text_def)

lemma strip_starts_nonspace: "\<not> isspace c \<Longrightarrow> strip (c # cs) \<noteq> []"
  by (auto simp: strip_eq_Nil_iff)

lemma store_eq: "st\<lparr>uploaded_filename := f, document_text := t\<rparr> = \<lparr>uploaded_filename = f, document_text = t\<rparr>"
  by (cases st) simp

lemma upload_file_extracted:
  assumes "name \<noteq> []"
    and "file_save env (os_path_join UPLOAD_FOLDER (secure_filename env name)) = None"
    and "extract_text env (os_path_join UPLOAD_FOLDER (secure_filename env name)) = Inr text"
  shows "upload_file env (Some name) st =
           (if strip text \<noteq> []
            then jsonify [(''message'', ''File uploaded successfully''), (''redirect'', ''process.html'')] 200
            else jsonify [(''message'', ''File uploaded but no readable content found'')] 400,
            \<lparr>uploaded_filename = secure_filename env name, document_text = text\<rparr>)"
  using assms by (simp add: upload_file_def Let_def store_eq)

lemma upload_file_cases:
  "upload_file env file st = (resp, st') \<Longrightarrow>
   (case file of
      None \<Rightarrow> status resp = 400 \<and> st' = st
    | Some name \<Rightarrow>
        if name = [] then status resp = 400 \<and> st' = st
        else (case file_save env (os_path_join UPLOAD_FOLDER (secure_filename env name)) of
                Some e \<Rightarrow> status resp = 500 \<and> st' = st
              | None \<Rightarrow>
                  (case extract_text env (os_path_join UPLOAD_FOLDER (secure_filename env name)) of
                     Inl e \<Rightarrow> status resp = 500 \<and> st' = st\<lparr>uploaded_filename := secure_filename env name\<rparr>
                   | Inr text \<Rightarrow>
                       status resp = (if strip text = [] then 400 else 200) \<and>
                       st' = \<lparr>uploaded_filename = secure_filename env name, document_text = text\<rparr>)))"
  by (auto simp: upload_file_def Let_def jsonify_def store_eq split: option.splits sum.splits if_splits)

lemma disk_blank:
  "upload_file disk (Some ''blank.pdf'') st =
     (jsonify [(''message'', ''File uploaded but no readable content found'')] 400,
      \<lparr>uploaded_filename = ''blank.pdf'', document_text = ''\<newline>''\<rparr>)"
  by (simp add: upload_file_def disk_def os_path_join_def UPLOAD_FOLDER_def extract_text_def
      endswith_def suffix_to_prefix extract_text_from_pdf_def strip_def isspace_def store_eq)

lemma disk_report:
  "upload_file disk (Some ''report.pdf'') st =
     (jsonify [(''message'', ''File uploaded successfully''), (''redirect'', ''process.html'')] 200,
      \<lparr>uploaded_filename = ''report.pdf'', document_text = ''Revenue: 100\<newline>Costs: 40\<newline>''\<rparr>)"
  by (simp add: upload_file_def disk_def os_path_join_def UPLOAD_FOLDER_def extract_text_def
      endswith_def suffix_to_prefix extract_text_from_pdf_def strip_def isspace_def store_eq)

lemma disk_broken:
  "upload_file disk (Some ''broken.docx'') st =
     (jsonify [(''message'', ''File upload failed''), (''error'', ''Package not found'')] 500,
      st\<lparr>uploaded_filename := ''broken.docx''\<rparr>)"
  by (simp add: upload_file_def disk_def os_path_join_def UPLOAD_FOLDER_def extract_text_def
      endswith_def suffix_to_prefix extract_text_from_docx_def)

lemma disk_memo:
  "upload_file disk (Some ''memo.docx'') st =
     (jsonify [(''message'', ''File uploaded successfully''), (''redirect'', ''process.html'')] 200,
      \<lparr>uploaded_filename = ''memo.docx'', document_text = ''Quarterly memo\<newline>Profit rose.''\<rparr>)"
  by (simp add: upload_file_def disk_def os_path_join_def UPLOAD_FOLDER_def extract_text_def
      endswith_def suffix_to_prefix extract_text_from_docx_def strip_def isspace_def store_eq)

lemma full_disk_report:
  "upload_file full_disk (Some ''report.pdf'') st =
     (jsonify [(''message'', ''File upload failed''), (''error'', ''No space left on device'')] 500, st)"
  by (simp add: upload_file_def full_disk_def disk_def)

lemma upload_file_200:
  assumes "upload_file env file st = (resp, st')" and "status resp = 200"
  obtains name extracted where "file = Some name" and "name \<noteq> []"
    and "file_save env (os_path_join UPLOAD_FOLDER (secure_filename env name)) = None"
    and "extract_text env (os_path_join UPLOAD_FOLDER (secure_filename env name)) = Inr extracted"
    and "strip extracted \<noteq> []"
    and "st' = \<lparr>uploaded_filename = secure_filename env name, document_text = extracted\<rparr>"
  using upload_file_cases [OF assms(1)] assms(2)
  by (auto split: option.splits sum.splits if_splits)

lemma upload_file_document_text:
  "document_text (snd (upload_file env file st)) =
     (case upload_text env file of None \<Rightarrow> document_text st | Some text \<Rightarrow> text)"
  by (auto simp: upload_file_def upload_text_def Let_def split: option.splits sum.splits)

lemma upload_file_status_200:
  "status (fst (upload_file env file st)) = 200 \<Longrightarrow>
     \<exists>text. upload_text env file = Some text \<and> strip text \<noteq> []"
  by (auto simp: upload_file_def upload_text_def Let_def jsonify_def
      split: option.splits sum.splits if_splits)

lemma process_file_store: "snd (process_file st) = st"
  by (simp add: process_file_def Let_def)

lemma ask_question_store: "snd (snd (ask_question cfg api data st)) = st"
  by (simp add: ask_question_def Let_def split_def split: option.splits json_value.splits)

lemma handle_keeps_empty:
  "extracts_nothing r \<Longrightarrow> document_text st = [] \<Longrightarrow> document_text (snd (handle cfg r st)) = []"
  by (cases r)
    (auto simp: handle_def upload_file_document_text process_file_store ask_question_store split_def
      split: option.splits)

lemma run_keeps_empty:
  "list_all extracts_nothing rs \<Longrightarrow> document_text st = [] \<Longrightarrow>
     document_text (snd (run cfg rs st)) = []"
proof (induction rs arbitrary: st)
  case Nil
  then show ?case by simp
next
  case (Cons r rs)
  from Cons.prems have "document_text (snd (handle cfg r st)) = []"
    by (simp add: handle_keeps_empty)
  with Cons.prems Cons.IH [of "snd (handle cfg r st)"] show ?case
    by (simp add: split_def Let_def)
qed

lemma run_no_success:
  "list_all extracts_nothing rs \<Longrightarrow> 200 \<notin> set (upload_statuses rs (fst (run cfg rs st)))"
proof (induction rs arbitrary: st)
  case Nil
  then show ?case by simp
next
  case (Cons r rs)
  have tl: "200 \<notin> set (upload_statuses rs (fst (run cfg rs (snd (handle cfg r st)))))"
    using Cons by simp
  show ?case
  proof (cases r)
    case (Upload env f)
    have "status (fst (upload_file env f st)) \<noteq> 200"
      using upload_file_status_200 [of env f st] Cons.prems Upload
      by (auto simp: strip_eq_Nil_iff)
    with tl Upload show ?thesis by (simp add: split_def Let_def handle_def)
  next
    case Process
    with tl show ?thesis by (simp add: split_def Let_def)
  next
    case (Ask api data)
    with tl show ?thesis by (simp add: split_def Let_def)
  qed
qed

lemma query_gpt4_answering:
  "query_gpt4 cfg answering q c = (''42'', [completion_request cfg q c])"
  by (simp add: query_gpt4_def answering_def Let_def)

section \<open>The store after an upload\<close>

text \<open>
  Claim C1, amended. The stated claim is that every response other than 200 leaves both
  fields of the store as they were. The handler assigns the sanitised file name as soon
  as the file is saved and the extracted text as soon as extraction returns, and only
  then looks at the text. So: the store is left exactly as it was when the request has
  no file or an empty file name (400) and when saving raises (500); when extraction
  raises (500) the file name has been replaced and the text is the old one; when the
  extracted text is empty or whitespace-only (400) both fields have been replaced, as
  they are on a 200.
\<close>

theorem upload_store_effect:
  assumes "upload_file env file st = (resp, st')"
  shows "case file of
      None \<Rightarrow> status resp = 400 \<and> st' = st
    | Some name \<Rightarrow>
        if name = [] then status resp = 400 \<and> st' = st
        else (case file_save env (os_path_join UPLOAD_FOLDER (secure_filename env name)) of
                Some e \<Rightarrow> status resp = 500 \<and> st' = st
              | None \<Rightarrow>
                  (case extract_text env (os_path_join UPLOAD_FOLDER (secure_filename env name)) of
                     Inl e \<Rightarrow> status resp = 500 \<and> st' = st\<lparr>uploaded_filename := secure_filename env name\<rparr>
                   | Inr text \<Rightarrow>
                       status resp = (if strip text = [] then 400 else 200) \<and>
                       st' = \<lparr>uploaded_filename = secure_filename env name, document_text = text\<rparr>))"
  using assms by (rule upload_file_cases)

text \<open>
  The theorem at an unreadable upload (a one-page PDF without text layer: 400, both
  fields replaced) and at an upload that cannot be saved (500, store untouched).
\<close>

theorem upload_store_effect_witness:
  "upload_file disk (Some ''blank.pdf'') initial_store =
     (jsonify [(''message'', ''File uploaded but no readable content found'')] 400,
      \<lparr>uploaded_filename = ''blank.pdf'', document_text = ''\<newline>''\<rparr>)
   \<and> upload_file full_disk (Some ''report.pdf'') initial_store =
     (jsonify [(''message'', ''File upload failed''), (''error'', ''No space left on device'')] 500,
      initial_store)"
proof -
  note a = disk_blank [of initial_store]
  note b = full_disk_report [of initial_store]
  show ?thesis
    using upload_store_effect [OF a] upload_store_effect [OF b] a b by simp
qed

text \<open>
  The claim as stated fails: from the initial store, uploading \<open>blank.pdf\<close> is answered
  400 and leaves the file name and a text of one line feed in the store; uploading
  \<open>broken.docx\<close> is answered 500 and leaves its file name there.
\<close>

theorem upload_atomicity_counterexample:
  "status (fst (upload_file disk (Some ''blank.pdf'') initial_store)) = 400 \<and>
   snd (upload_file disk (Some ''blank.pdf'') initial_store) =
     \<lparr>uploaded_filename = ''blank.pdf'', document_text = ''\<newline>''\<rparr> \<and>
   snd (upload_file disk (Some ''blank.pdf'') initial_store) \<noteq> initial_store \<and>
   status (fst (upload_file disk (Some ''broken.docx'') initial_store)) = 500 \<and>
   snd (upload_file disk (Some ''broken.docx'') initial_store) \<noteq> initial_store"
  by (simp add: disk_blank disk_broken jsonify_def initial_store_def)

section \<open>Questions before any document\<close>

text \<open>
  Claim C2, amended. The stated claim is that Ask returns 400 "No document analyzed yet"
  after every sequence of requests in which no upload returned 200. The handler tests
  whether the stored text is empty, and an upload answered 400 for whitespace-only text
  has stored that text. What holds: after every sequence of requests in which no upload
  assigned a non-empty text (each one was rejected before extraction, raised, or
  extracted the empty string), Ask returns 400 with that message whatever the question,
  sends nothing to the completion service and leaves the store alone; in such a
  sequence no upload returned 200.
\<close>

theorem ask_without_text:
  assumes "list_all extracts_nothing rs"
  shows "ask_question cfg api data (snd (run cfg rs initial_store)) =
           (jsonify [(''message'', ''No document analyzed yet'')] 400, [], snd (run cfg rs initial_store))
         \<and> 200 \<notin> set (upload_statuses rs (fst (run cfg rs initial_store)))"
proof -
  have "document_text (snd (run cfg rs initial_store)) = []"
    using assms by (rule run_keeps_empty) (simp add: initial_store_def)
  then show ?thesis
    using run_no_success [OF assms] by (simp add: ask_question_def)
qed

text \<open>
  The theorem after five requests: an unsupported file, a save that fails, an analysis,
  an upload without file and a document that cannot be opened.
\<close>

theorem ask_without_text_witness:
  "list_all extracts_nothing
     [Upload disk (Some ''notes.txt''), Upload full_disk (Some ''report.pdf''), Process,
      Upload disk None, Upload disk (Some ''broken.docx'') :: (frame, unit) request]
   \<and> fst (ask_question config answering (Some (JString ''What?''))
        (snd (run config
          [Upload disk (Some ''notes.txt''), Upload full_disk (Some ''report.pdf''), Process,
           Upload disk None, Upload disk (Some ''broken.docx'') :: (frame, unit) request]
          initial_store)))
      = jsonify [(''message'', ''No document analyzed yet'')] 400"
proof -
  have h: "list_all extracts_nothing
     [Upload disk (Some ''notes.txt''), Upload full_disk (Some ''report.pdf''), Process,
      Upload disk None, Upload disk (Some ''broken.docx'') :: (frame, unit) request]"
    by (simp add: upload_text_def full_disk_def disk_def os_path_join_def UPLOAD_FOLDER_def
        extract_text_def endswith_def suffix_to_prefix extract_text_from_docx_def)
  show ?thesis
    using h ask_without_text [OF h, of config answering "Some (JString ''What?'')"] by simp
qed

text \<open>
  The claim as stated fails: the only upload of the sequence, \<open>blank.pdf\<close>, is answered
  400, and the question that follows is answered 200 by the completion service.
\<close>

theorem ask_before_success_counterexample:
  "upload_statuses [Upload disk (Some ''blank.pdf'') :: (frame, unit) request]
      (fst (run config [Upload disk (Some ''blank.pdf'')] initial_store)) = [400]
   \<and> fst (ask_question config answering (Some (JString ''What?''))
          (snd (run config [Upload disk (Some ''blank.pdf'') :: (frame, unit) request] initial_store)))
       = jsonify [(''question'', ''What?''), (''answer'', ''42'')] 200"
  by (simp add: handle_def disk_blank jsonify_def ask_question_def query_gpt4_answering
      strip_def isspace_def Let_def)

section \<open>Analysis of the stored text\<close>

lemma process_file_nonempty:
  "document_text st \<noteq> [] \<Longrightarrow>
     process_file st =
       (jsonify [(''message'', ''Analysis successful! Word count: '' @ str_nat (length (split (document_text st)))),
                 (''content'', take 500 (document_text st))] 200, st)"
  by (simp add: process_file_def Let_def)

lemma ask_question_blank:
  "document_text st \<noteq> [] \<Longrightarrow> strip q = [] \<Longrightarrow>
     ask_question cfg api (Some (JString q)) st =
       (jsonify [(''message'', ''Please ask a question'')] 400, [], st)"
  by (simp add: ask_question_def Let_def)

lemma ask_question_absent:
  "document_text st \<noteq> [] \<Longrightarrow>
     ask_question cfg api None st = (jsonify [(''message'', ''Please ask a question'')] 400, [], st)"
  by (simp add: ask_question_def Let_def strip_def)

lemma ask_question_asked:
  "document_text st \<noteq> [] \<Longrightarrow> strip q \<noteq> [] \<Longrightarrow>
     ask_question cfg api (Some (JString q)) st =
       (jsonify [(''question'', strip q),
                 (''answer'', fst (query_gpt4 cfg api (strip q) (document_text st)))] 200,
        snd (query_gpt4 cfg api (strip q) (document_text st)), st)"
  by (simp add: ask_question_def Let_def split_def)

lemma token_starts_word_Suc:
  "\<not> isspace c \<Longrightarrow>
     token_starts p (replicate (Suc n) c @ s) = (if p then 1 else 0) + token_starts False s"
  by (induction n arbitrary: p) auto

lemma token_starts_word:
  "\<not> isspace c \<Longrightarrow> 0 < n \<Longrightarrow>
     token_starts p (replicate n c @ s) = (if p then 1 else 0) + token_starts False s"
  using token_starts_word_Suc [of c p "n - 1" s] by simp

lemma long_text_facts:
  "long_text \<noteq> []"
  "length long_text = 600"
  "whitespace_delimited_tokens long_text = 3"
  "whitespace_delimited_tokens (take 500 long_text) = 2"
  "take 500 long_text = replicate 300 CHR ''a'' @ '' '' @ replicate 199 CHR ''b''"
proof -
  have sp: "isspace CHR '' ''" "\<not> isspace CHR ''a''" "\<not> isspace CHR ''b''" "\<not> isspace CHR ''c''"
    by (simp_all add: isspace_def)
  show "long_text \<noteq> []" "length long_text = 600"
    by (simp_all add: long_text_def)
  show "whitespace_delimited_tokens long_text = 3"
    by (simp add: long_text_def whitespace_delimited_tokens_def token_starts_word
        token_starts_word [where s = "[]", simplified] sp)
  show t: "take 500 long_text = replicate 300 CHR ''a'' @ '' '' @ replicate 199 CHR ''b''"
    by (simp add: long_text_def)
  show "whitespace_delimited_tokens (take 500 long_text) = 2"
    unfolding t
    by (simp add: whitespace_delimited_tokens_def token_starts_word
        token_starts_word [where s = "[]", simplified] sp)
qed

lemma str_nat_3: "str_nat 3 = ''3''"
  by (simp add: str_nat.simps digit_char_def)

lemma str_nat_4: "str_nat 4 = ''4''"
  by (simp add: str_nat.simps digit_char_def)

lemma memo_tokens: "whitespace_delimited_tokens ''Quarterly memo\<newline>Profit rose.'' = 4"
  by (simp add: whitespace_delimited_tokens_def isspace_def)

text \<open>
  Claim C6. For every non-empty stored text, Analyze answers 200; the word count in its
  message is the number of whitespace-delimited tokens of the whole stored text (the
  count is taken before any truncation), its content field is the first 500 characters
  of the stored text, and the store is returned as it was.
\<close>

theorem analyze_counts_words_of_full_text:
  assumes "document_text st \<noteq> []"
  shows "process_file st =
     (jsonify [(''message'', ''Analysis successful! Word count: '' @
                  str_nat (whitespace_delimited_tokens (document_text st))),
               (''content'', take 500 (document_text st))] 200, st)"
  using assms by (simp add: process_file_nonempty length_split whitespace_delimited_tokens_def)

text \<open>
  The theorem at a text of 600 characters whose third word starts after the 500th: the
  count is 3, the content has 500 characters and two words.
\<close>

theorem analyze_counts_words_of_full_text_witness:
  "process_file \<lparr>uploaded_filename = ''long.pdf'', document_text = long_text\<rparr> =
    (jsonify [(''message'', ''Analysis successful! Word count: 3''),
              (''content'', replicate 300 CHR ''a'' @ '' '' @ replicate 199 CHR ''b'')] 200,
     \<lparr>uploaded_filename = ''long.pdf'', document_text = long_text\<rparr>)"
  using analyze_counts_words_of_full_text
      [of "\<lparr>uploaded_filename = ''long.pdf'', document_text = long_text\<rparr>"]
  by (simp add: long_text_facts str_nat_3)

section \<open>Two uploads in a row\<close>

text \<open>
  Claim C7. After two uploads in a row that both returned 200, the store holds the
  sanitised file name and the extracted text of the second upload and nothing else: it
  is the store the second upload leaves from any store whatsoever, and an analysis
  that follows reports the word count and the first 500 characters of the second text.
\<close>

theorem last_upload_wins:
  assumes "upload_file env1 file1 st0 = (resp1, st1)" and "status resp1 = 200"
    and "upload_file env2 file2 st1 = (resp2, st2)" and "status resp2 = 200"
  shows "\<exists>name extracted.
           file2 = Some name
         \<and> extract_text env2 (os_path_join UPLOAD_FOLDER (secure_filename env2 name)) = Inr extracted
         \<and> st2 = \<lparr>uploaded_filename = secure_filename env2 name, document_text = extracted\<rparr>
         \<and> snd (upload_file env2 file2 st) = st2
         \<and> process_file st2 =
             (jsonify [(''message'', ''Analysis successful! Word count: '' @
                          str_nat (whitespace_delimited_tokens extracted)),
                       (''content'', take 500 extracted)] 200, st2)"
proof -
  from assms(3,4) obtain name extracted where f: "file2 = Some name" and n: "name \<noteq> []"
    and s: "file_save env2 (os_path_join UPLOAD_FOLDER (secure_filename env2 name)) = None"
    and e: "extract_text env2 (os_path_join UPLOAD_FOLDER (secure_filename env2 name)) = Inr extracted"
    and ne: "strip extracted \<noteq> []"
    and st2: "st2 = \<lparr>uploaded_filename = secure_filename env2 name, document_text = extracted\<rparr>"
    by (rule upload_file_200)
  have "snd (upload_file env2 file2 st) = st2"
    using upload_file_extracted [OF n s e, of st] f st2 by simp
  moreover have "document_text st2 \<noteq> []"
    using ne st2 by (auto dest: strip_nonblank_nonempty)
  then have "process_file st2 =
             (jsonify [(''message'', ''Analysis successful! Word count: '' @
                          str_nat (whitespace_delimited_tokens extracted)),
                       (''content'', take 500 extracted)] 200, st2)"
    using st2 by (simp add: process_file_nonempty length_split whitespace_delimited_tokens_def)
  ultimately show ?thesis using f e st2 by blast
qed

text \<open>The theorem at \<open>report.pdf\<close> followed by \<open>memo.docx\<close>.\<close>

theorem last_upload_wins_witness:
  "upload_file disk (Some ''report.pdf'') initial_store =
     (jsonify [(''message'', ''File uploaded successfully''), (''redirect'', ''process.html'')] 200,
      \<lparr>uploaded_filename = ''report.pdf'', document_text = ''Revenue: 100\<newline>Costs: 40\<newline>''\<rparr>)
   \<and> upload_file disk (Some ''memo.docx'')
        \<lparr>uploaded_filename = ''report.pdf'', document_text = ''Revenue: 100\<newline>Costs: 40\<newline>''\<rparr> =
     (jsonify [(''message'', ''File uploaded successfully''), (''redirect'', ''process.html'')] 200,
      \<lparr>uploaded_filename = ''memo.docx'', document_text = ''Quarterly memo\<newline>Profit rose.''\<rparr>)
   \<and> process_file \<lparr>uploaded_filename = ''memo.docx'', document_text = ''Quarterly memo\<newline>Profit rose.''\<rparr> =
     (jsonify [(''message'', ''Analysis successful! Word count: 4''),
               (''content'', ''Quarterly memo\<newline>Profit rose.'')] 200,
      \<lparr>uploaded_filename = ''memo.docx'', document_text = ''Quarterly memo\<newline>Profit rose.''\<rparr>)"
proof -
  note a = disk_report [of initial_store]
  note b = disk_memo [of "\<lparr>uploaded_filename = ''report.pdf'', document_text = ''Revenue: 100\<newline>Costs: 40\<newline>''\<rparr>"]
  have s: "status (jsonify [(''message'', ''File uploaded successfully''), (''redirect'', ''process.html'')] 200) = 200"
    by (simp add: jsonify_def)
  from last_upload_wins [OF a s b s, of initial_store]
  have "process_file \<lparr>uploaded_filename = ''memo.docx'', document_text = ''Quarterly memo\<newline>Profit rose.''\<rparr> =
     (jsonify [(''message'', ''Analysis successful! Word count: 4''),
               (''content'', ''Quarterly memo\<newline>Profit rose.'')] 200,
      \<lparr>uploaded_filename = ''memo.docx'', document_text = ''Quarterly memo\<newline>Profit rose.''\<rparr>)"
    by (auto simp: memo_tokens str_nat_4)
  with a b show ?thesis by simp
qed

section \<open>Questions without content\<close>

lemma disk_notes:
  "upload_file disk (Some ''notes.txt'') st =
     (jsonify [(''message'', ''File uploaded but no readable content found'')] 400,
      \<lparr>uploaded_filename = ''notes.txt'', document_text = []\<rparr>)"
  by (simp add: upload_file_def disk_def os_path_join_def UPLOAD_FOLDER_def extract_text_def
      endswith_def suffix_to_prefix strip_def store_eq)

lemma strip_blanks: "strip '' \<newline>  '' = []"
  by (simp add: strip_def isspace_def)

text \<open>
  Claim C8, amended. The stated claim is that every Ask made after a successful upload
  with an absent, empty or whitespace-only question is answered 400 "Please ask a
  question". The handler tests the stored text first, and an upload that comes after
  the successful one and extracts the empty string has emptied it. What holds, on every
  store: such a question is answered 400, nothing is sent to the completion service and
  the store is left alone; the message is "Please ask a question" when the stored text
  is not empty, which is the case on the store an upload answered 200 has just left,
  and "No document analyzed yet" when the stored text is empty.
\<close>

theorem blank_question_rejected:
  assumes "data = None \<or> (\<exists>q. data = Some (JString q) \<and> strip q = [])"
  shows "ask_question cfg api data st =
           (jsonify [(''message'',
               if document_text st = [] then ''No document analyzed yet''
               else ''Please ask a question'')] 400, [], st)
       \<and> (upload_file env file st0 = (resp, st) \<and> status resp = 200 \<longrightarrow>
            ask_question cfg api data st =
              (jsonify [(''message'', ''Please ask a question'')] 400, [], st))"
proof -
  have any: "ask_question cfg api data st =
           (jsonify [(''message'',
               if document_text st = [] then ''No document analyzed yet''
               else ''Please ask a question'')] 400, [], st)"
  proof (cases "document_text st = []")
    case True
    then show ?thesis by (simp add: ask_question_def)
  next
    case False
    with assms show ?thesis by (auto simp: ask_question_blank ask_question_absent)
  qed
  have "document_text st \<noteq> []"
    if up: "upload_file env file st0 = (resp, st)" and ok: "status resp = 200"
  proof -
    from up ok obtain name extracted where "strip extracted \<noteq> []"
      and "st = \<lparr>uploaded_filename = secure_filename env name, document_text = extracted\<rparr>"
      by (rule upload_file_200)
    then show ?thesis by (auto dest: strip_nonblank_nonempty)
  qed
  with any show ?thesis by auto
qed

text \<open>
  The theorem at a question of blanks and a line feed and at a body without question, on
  the store \<open>report.pdf\<close> leaves and on the store \<open>notes.txt\<close> leaves after it.
\<close>

theorem blank_question_rejected_witness:
  "upload_file disk (Some ''report.pdf'') initial_store =
     (jsonify [(''message'', ''File uploaded successfully''), (''redirect'', ''process.html'')] 200,
      \<lparr>uploaded_filename = ''report.pdf'', document_text = ''Revenue: 100\<newline>Costs: 40\<newline>''\<rparr>)
   \<and> strip '' \<newline>  '' = []
   \<and> ask_question config answering (Some (JString '' \<newline>  ''))
        \<lparr>uploaded_filename = ''report.pdf'', document_text = ''Revenue: 100\<newline>Costs: 40\<newline>''\<rparr> =
     (jsonify [(''message'', ''Please ask a question'')] 400, [],
      \<lparr>uploaded_filename = ''report.pdf'', document_text = ''Revenue: 100\<newline>Costs: 40\<newline>''\<rparr>)
   \<and> ask_question config answering None
        \<lparr>uploaded_filename = ''report.pdf'', document_text = ''Revenue: 100\<newline>Costs: 40\<newline>''\<rparr> =
     (jsonify [(''message'', ''Please ask a question'')] 400, [],
      \<lparr>uploaded_filename = ''report.pdf'', document_text = ''Revenue: 100\<newline>Costs: 40\<newline>''\<rparr>)
   \<and> ask_question config answering (Some (JString '' \<newline>  ''))
        \<lparr>uploaded_filename = ''notes.txt'', document_text = []\<rparr> =
     (jsonify [(''message'', ''No document analyzed yet'')] 400, [],
      \<lparr>uploaded_filename = ''notes.txt'', document_text = []\<rparr>)"
proof -
  note a = disk_report [of initial_store]
  have s: "status (jsonify [(''message'', ''File uploaded successfully''), (''redirect'', ''process.html'')] 200) = 200"
    by (simp add: jsonify_def)
  note b = strip_blanks
  from blank_question_rejected
    [of "Some (JString '' \<newline>  '')" config answering
        "\<lparr>uploaded_filename = ''report.pdf'', document_text = ''Revenue: 100\<newline>Costs: 40\<newline>''\<rparr>"
        disk "Some ''report.pdf''" initial_store
        "jsonify [(''message'', ''File uploaded successfully''), (''redirect'', ''process.html'')] 200"]
  have 1: "ask_question config answering (Some (JString '' \<newline>  ''))
        \<lparr>uploaded_filename = ''report.pdf'', document_text = ''Revenue: 100\<newline>Costs: 40\<newline>''\<rparr> =
     (jsonify [(''message'', ''Please ask a question'')] 400, [],
      \<lparr>uploaded_filename = ''report.pdf'', document_text = ''Revenue: 100\<newline>Costs: 40\<newline>''\<rparr>)"
    using a s b by simp
  from blank_question_rejected
    [of None config answering
        "\<lparr>uploaded_filename = ''report.pdf'', document_text = ''Revenue: 100\<newline>Costs: 40\<newline>''\<rparr>"
        disk "Some ''report.pdf''" initial_store
        "jsonify [(''message'', ''File uploaded successfully''), (''redirect'', ''process.html'')] 200"]
  have 2: "ask_question config answering None
        \<lparr>uploaded_filename = ''report.pdf'', document_text = ''Revenue: 100\<newline>Costs: 40\<newline>''\<rparr> =
     (jsonify [(''message'', ''Please ask a question'')] 400, [],
      \<lparr>uploaded_filename = ''report.pdf'', document_text = ''Revenue: 100\<newline>Costs: 40\<newline>''\<rparr>)"
    using a s by simp
  from blank_question_rejected
    [of "Some (JString '' \<newline>  '')" config answering
        "\<lparr>uploaded_filename = ''notes.txt'', document_text = []\<rparr>"
        disk "Some ''report.pdf''" initial_store
        "jsonify [(''message'', ''File uploaded successfully''), (''redirect'', ''process.html'')] 200"]
  have 3: "ask_question config answering (Some (JString '' \<newline>  ''))
        \<lparr>uploaded_filename = ''notes.txt'', document_text = []\<rparr> =
     (jsonify [(''message'', ''No document analyzed yet'')] 400, [],
      \<lparr>uploaded_filename = ''notes.txt'', document_text = []\<rparr>)"
    using b by simp
  from a b 1 2 3 show ?thesis by simp
qed

text \<open>
  The claim as stated fails: \<open>report.pdf\<close> is uploaded and answered 200, \<open>notes.txt\<close>
  is uploaded after it and answered 400, leaving an empty text in the store; the blank
  question that follows is answered 400 "No document analyzed yet", not "Please ask a
  question".
\<close>

theorem blank_question_after_upload_counterexample:
  "upload_statuses
      [Upload disk (Some ''report.pdf''), Upload disk (Some ''notes.txt'') :: (frame, unit) request]
      (fst (run config
         [Upload disk (Some ''report.pdf''), Upload disk (Some ''notes.txt'') :: (frame, unit) request]
         initial_store)) = [200, 400]
   \<and> fst (ask_question config answering (Some (JString '' \<newline>  ''))
          (snd (run config
             [Upload disk (Some ''report.pdf''), Upload disk (Some ''notes.txt'') :: (frame, unit) request]
             initial_store)))
       = jsonify [(''message'', ''No document analyzed yet'')] 400
   \<and> fst (ask_question config answering (Some (JString '' \<newline>  ''))
          (snd (run config
             [Upload disk (Some ''report.pdf''), Upload disk (Some ''notes.txt'') :: (frame, unit) request]
             initial_store)))
       \<noteq> jsonify [(''message'', ''Please ask a question'')] 400"
  by (simp add: handle_def disk_report disk_notes jsonify_def ask_question_def Let_def)

section \<open>The tabular extractors\<close>

text \<open>
  Claim C9. When parsing a CSV or Excel file raises, the extractor returns the error
  text prefixed with "Error reading CSV: " or "Error reading Excel file: "; when the
  parse succeeds it returns the rendering of the frame without index column
  (\<open>to_string(index=False)\<close>). Neither extractor can raise, so \<open>extract_text\<close> returns
  a text for every path ending in .csv, .xlsx or .xls.
\<close>

theorem tabular_extractors_return_text:
  "(read_csv env p = Inl e \<longrightarrow> extract_text_from_csv env p = ''Error reading CSV: '' @ e)
 \<and> (read_excel env p = Inl e \<longrightarrow> extract_text_from_excel env p = ''Error reading Excel file: '' @ e)
 \<and> (read_csv env p = Inr df \<and> to_string env df False = Inr rendered
       \<longrightarrow> extract_text_from_csv env p = rendered)
 \<and> (read_excel env p = Inr df \<and> to_string env df False = Inr rendered
       \<longrightarrow> extract_text_from_excel env p = rendered)
 \<and> (endswith p ''.csv'' \<or> endswith p ''.xlsx'' \<or> endswith p ''.xls''
       \<longrightarrow> (\<exists>extracted. extract_text env p = Inr extracted))"
proof (intro conjI impI)
  assume "endswith p ''.csv'' \<or> endswith p ''.xlsx'' \<or> endswith p ''.xls''"
  then show "\<exists>extracted. extract_text env p = Inr extracted"
    using extract_text_csv [of p env] extract_text_excel [of p env] by blast
qed (simp_all add: extract_text_from_csv_def extract_text_from_excel_def)

lemma disk_tabular:
  "read_csv disk ''upload/bad.csv'' = Inl ''No columns to parse from file''"
  "read_csv disk ''upload/sales.csv'' = Inr ([''item'', ''qty''], [[''pen'', ''3'']])"
  "read_excel disk ''upload/bad.xlsx'' = Inl ''File is not a zip file''"
  "read_excel disk ''upload/book.xlsx'' = Inr ([''key'', ''value''], [[''a'', ''1''], [''b'', ''2'']])"
  "to_string disk = render_frame"
  by (simp_all add: disk_def)

lemma render_sales:
  "render_frame ([''item'', ''qty''], [[''pen'', ''3'']]) False = Inr ''item  qty\<newline>pen  3''"
  "render_frame ([''item'', ''qty''], [[''pen'', ''3'']]) True = Inr ''  item  qty\<newline>0  pen  3''"
  by (simp_all add: render_frame_def str_nat.simps digit_char_def upt_rec)

text \<open>
  The theorem at a CSV file without columns, an Excel file that is not one, and a CSV
  file that parses: its rendering has no row numbers.
\<close>

theorem tabular_extractors_return_text_witness:
  "extract_text_from_csv disk ''upload/bad.csv'' = ''Error reading CSV: No columns to parse from file''
 \<and> extract_text_from_excel disk ''upload/bad.xlsx'' = ''Error reading Excel file: File is not a zip file''
 \<and> extract_text_from_csv disk ''upload/sales.csv'' = ''item  qty\<newline>pen  3''
 \<and> extract_text disk ''upload/bad.csv'' = Inr ''Error reading CSV: No columns to parse from file''"
proof -
  have e: "endswith ''upload/bad.csv'' ''.csv''" by (simp add: endswith_def suffix_to_prefix)
  from tabular_extractors_return_text
    [of disk "''upload/bad.csv''" "''No columns to parse from file''" "([], [])" "[]"]
  have 1: "extract_text_from_csv disk ''upload/bad.csv'' = ''Error reading CSV: No columns to parse from file''"
    by (simp add: disk_tabular)
  from tabular_extractors_return_text
    [of disk "''upload/bad.xlsx''" "''File is not a zip file''" "([], [])" "[]"]
  have 2: "extract_text_from_excel disk ''upload/bad.xlsx'' = ''Error reading Excel file: File is not a zip file''"
    by (simp add: disk_tabular)
  from tabular_extractors_return_text
    [of disk "''upload/sales.csv''" "[]" "([''item'', ''qty''], [[''pen'', ''3'']])" "''item  qty\<newline>pen  3''"]
  have 3: "extract_text_from_csv disk ''upload/sales.csv'' = ''item  qty\<newline>pen  3''"
    by (simp add: disk_tabular render_sales)
  have 4: "extract_text disk ''upload/bad.csv'' = Inr ''Error reading CSV: No columns to parse from file''"
    using e 1 by (simp add: extract_text_csv)
  from 1 2 3 4 show ?thesis by simp
qed

section \<open>A tabular file that does not parse\<close>

lemma error_text_nonblank:
  "strip (''Error reading CSV: '' @ e) \<noteq> []" "strip (''Error reading Excel file: '' @ e) \<noteq> []"
  by (simp_all add: strip_starts_nonspace isspace_def)

lemma disk_paths:
  "secure_filename disk name = name"
  "file_save disk path = None"
  "os_path_join UPLOAD_FOLDER ''bad.csv'' = ''upload/bad.csv''"
  "os_path_join UPLOAD_FOLDER ''bad.xlsx'' = ''upload/bad.xlsx''"
  "os_path_join UPLOAD_FOLDER ''a.PDF'' = ''upload/a.PDF''"
  by (simp_all add: disk_def os_path_join_def UPLOAD_FOLDER_def)

lemma bad_csv_tokens:
  "whitespace_delimited_tokens ''Error reading CSV: No columns to parse from file'' = 9"
  by (simp add: whitespace_delimited_tokens_def isspace_def)

lemma str_nat_9: "str_nat 9 = ''9''"
  by (simp add: str_nat.simps digit_char_def)

text \<open>
  Claim C3. When a saved upload has a path ending in .csv, .xlsx or .xls and parsing it
  raises, \<open>extract_text\<close> returns the non-empty error message instead of raising, the
  upload is answered 200 "File uploaded successfully", and the error message is the
  stored document text: an analysis that follows counts its words and shows its first
  500 characters, and a question that follows is sent to the completion service with
  the message as the document.
\<close>

theorem tabular_parse_error_is_stored:
  assumes "name \<noteq> []"
    and "path = os_path_join UPLOAD_FOLDER (secure_filename env name)"
    and "file_save env path = None"
    and "(endswith path ''.csv'' \<and> read_csv env path = Inl e \<and> msg = ''Error reading CSV: '' @ e)
       \<or> ((endswith path ''.xlsx'' \<or> endswith path ''.xls'') \<and> read_excel env path = Inl e
            \<and> msg = ''Error reading Excel file: '' @ e)"
    and "st' = \<lparr>uploaded_filename = secure_filename env name, document_text = msg\<rparr>"
  shows "extract_text env path = Inr msg \<and> msg \<noteq> []
       \<and> upload_file env (Some name) st =
           (jsonify [(''message'', ''File uploaded successfully''), (''redirect'', ''process.html'')] 200, st')
       \<and> process_file st' =
           (jsonify [(''message'', ''Analysis successful! Word count: '' @
                        str_nat (whitespace_delimited_tokens msg)),
                     (''content'', take 500 msg)] 200, st')
       \<and> (strip q \<noteq> [] \<longrightarrow>
            ask_question cfg api (Some (JString q)) st' =
              (jsonify [(''question'', strip q), (''answer'', fst (query_gpt4 cfg api (strip q) msg))] 200,
               snd (query_gpt4 cfg api (strip q) msg), st'))"
proof -
  have ex: "extract_text env path = Inr msg"
    using assms(4) by (auto simp: extract_text_csv extract_text_excel
        extract_text_from_csv_def extract_text_from_excel_def)
  have nb: "strip msg \<noteq> []" using assms(4) error_text_nonblank by auto
  then have ne: "msg \<noteq> []" by (rule strip_nonblank_nonempty)
  have up: "upload_file env (Some name) st =
           (jsonify [(''message'', ''File uploaded successfully''), (''redirect'', ''process.html'')] 200, st')"
    using upload_file_extracted [OF assms(1), of env msg st] assms(2,3,5) ex nb by simp
  have dt: "document_text st' = msg" using assms(5) by simp
  have pr: "process_file st' =
           (jsonify [(''message'', ''Analysis successful! Word count: '' @
                        str_nat (whitespace_delimited_tokens msg)),
                     (''content'', take 500 msg)] 200, st')"
    using ne dt by (simp add: process_file_nonempty length_split whitespace_delimited_tokens_def)
  have ak: "strip q \<noteq> [] \<longrightarrow>
            ask_question cfg api (Some (JString q)) st' =
              (jsonify [(''question'', strip q), (''answer'', fst (query_gpt4 cfg api (strip q) msg))] 200,
               snd (query_gpt4 cfg api (strip q) msg), st')"
    using ne dt by (simp add: ask_question_asked)
  from ex ne up pr ak show ?thesis by blast
qed

text \<open>The theorem at a CSV file without columns and at an Excel file that is not one.\<close>

theorem tabular_parse_error_is_stored_witness:
  "upload_file disk (Some ''bad.csv'') initial_store =
     (jsonify [(''message'', ''File uploaded successfully''), (''redirect'', ''process.html'')] 200,
      \<lparr>uploaded_filename = ''bad.csv'',
       document_text = ''Error reading CSV: No columns to parse from file''\<rparr>)
   \<and> process_file \<lparr>uploaded_filename = ''bad.csv'',
       document_text = ''Error reading CSV: No columns to parse from file''\<rparr> =
     (jsonify [(''message'', ''Analysis successful! Word count: 9''),
               (''content'', ''Error reading CSV: No columns to parse from file'')] 200,
      \<lparr>uploaded_filename = ''bad.csv'',
       document_text = ''Error reading CSV: No columns to parse from file''\<rparr>)
   \<and> upload_file disk (Some ''bad.xlsx'') initial_store =
     (jsonify [(''message'', ''File uploaded successfully''), (''redirect'', ''process.html'')] 200,
      \<lparr>uploaded_filename = ''bad.xlsx'',
       document_text = ''Error reading Excel file: File is not a zip file''\<rparr>)"
proof -
  have c: "endswith ''upload/bad.csv'' ''.csv''" and x: "endswith ''upload/bad.xlsx'' ''.xlsx''"
    by (simp_all add: endswith_def suffix_to_prefix)
  from tabular_parse_error_is_stored
    [of "''bad.csv''" "''upload/bad.csv''" disk "''No columns to parse from file''"
        "''Error reading CSV: No columns to parse from file''"
        "\<lparr>uploaded_filename = ''bad.csv'',
          document_text = ''Error reading CSV: No columns to parse from file''\<rparr>"
        initial_store "''What?''" config answering]
  have 1: "upload_file disk (Some ''bad.csv'') initial_store =
     (jsonify [(''message'', ''File uploaded successfully''), (''redirect'', ''process.html'')] 200,
      \<lparr>uploaded_filename = ''bad.csv'',
       document_text = ''Error reading CSV: No columns to parse from file''\<rparr>)"
    and 2: "process_file \<lparr>uploaded_filename = ''bad.csv'',
       document_text = ''Error reading CSV: No columns to parse from file''\<rparr> =
     (jsonify [(''message'', ''Analysis successful! Word count: 9''),
               (''content'', ''Error reading CSV: No columns to parse from file'')] 200,
      \<lparr>uploaded_filename = ''bad.csv'',
       document_text = ''Error reading CSV: No columns to parse from file''\<rparr>)"
    using c by (simp_all add: disk_paths disk_tabular bad_csv_tokens str_nat_9)
  from tabular_parse_error_is_stored
    [of "''bad.xlsx''" "''upload/bad.xlsx''" disk "''File is not a zip file''"
        "''Error reading Excel file: File is not a zip file''"
        "\<lparr>uploaded_filename = ''bad.xlsx'',
          document_text = ''Error reading Excel file: File is not a zip file''\<rparr>"
        initial_store "''What?''" config answering]
  have 3: "upload_file disk (Some ''bad.xlsx'') initial_store =
     (jsonify [(''message'', ''File uploaded successfully''), (''redirect'', ''process.html'')] 200,
      \<lparr>uploaded_filename = ''bad.xlsx'',
       document_text = ''Error reading Excel file: File is not a zip file''\<rparr>)"
    using x by (simp add: disk_paths disk_tabular)
  from 1 2 3 show ?thesis by simp
qed

section \<open>The completion service\<close>

lemma completion_request_truncates:
  "completion_request cfg question (take 2000 context_text) =
     completion_request cfg question context_text"
  by (simp add: completion_request_def user_prompt_def)

lemma query_gpt4_truncates:
  "query_gpt4 cfg api question (take 2000 context_text) = query_gpt4 cfg api question context_text"
  unfolding query_gpt4_def completion_request_truncates by (rule refl)

lemma query_gpt4_sent:
  "snd (query_gpt4 cfg api question context_text) = []
   \<or> snd (query_gpt4 cfg api question context_text) = [completion_request cfg question context_text]"
  by (simp add: query_gpt4_def Let_def split: sum.splits list.splits)

lemma services:
  "AzureOpenAI offline k e v = Inr ()" "create offline c r = Inl ''Connection error.''"
  "AzureOpenAI choiceless k e v = Inr ()" "create choiceless c r = Inr []"
  "AzureOpenAI keyless k e v = Inl ''Missing credentials''"
  by (simp_all add: offline_def choiceless_def keyless_def)

text \<open>
  Claim C4. For a non-empty stored text and a question that is not blank, when the
  completion call fails (building the client raises, the request raises, or the
  response has no choice), \<open>query_gpt4\<close> returns "Error querying GPT-4: " followed by
  the error text instead of raising, and Ask answers 200 with the trimmed question and
  that text in the answer field.
\<close>

theorem completion_failure_is_answer:
  assumes "document_text st \<noteq> []" and "strip q \<noteq> []"
    and "AzureOpenAI api (AZURE_OPENAI_KEY cfg) (AZURE_OPENAI_ENDPOINT cfg) (AZURE_API_VERSION cfg) = Inl e
       \<or> (\<exists>client.
            AzureOpenAI api (AZURE_OPENAI_KEY cfg) (AZURE_OPENAI_ENDPOINT cfg) (AZURE_API_VERSION cfg)
              = Inr client
          \<and> (create api client (completion_request cfg (strip q) (document_text st)) = Inl e
             \<or> create api client (completion_request cfg (strip q) (document_text st)) = Inr []
               \<and> e = ''list index out of range''))"
  shows "fst (query_gpt4 cfg api (strip q) (document_text st)) = ''Error querying GPT-4: '' @ e
       \<and> fst (ask_question cfg api (Some (JString q)) st) =
           jsonify [(''question'', strip q), (''answer'', ''Error querying GPT-4: '' @ e)] 200
       \<and> status (fst (ask_question cfg api (Some (JString q)) st)) = 200"
proof -
  have a: "fst (query_gpt4 cfg api (strip q) (document_text st)) = ''Error querying GPT-4: '' @ e"
    using assms(3) by (auto simp: query_gpt4_def Let_def)
  then show ?thesis
    using assms(1,2) by (simp add: ask_question_asked jsonify_def)
qed

text \<open>
  The theorem at a connection that fails, a response without choices and a client that
  cannot be built.
\<close>

theorem completion_failure_is_answer_witness:
  "fst (ask_question config offline (Some (JString '' Revenue? ''))
          \<lparr>uploaded_filename = ''report.pdf'', document_text = ''Revenue: 100''\<rparr>) =
     jsonify [(''question'', ''Revenue?''), (''answer'', ''Error querying GPT-4: Connection error.'')] 200
 \<and> fst (ask_question config choiceless (Some (JString '' Revenue? ''))
          \<lparr>uploaded_filename = ''report.pdf'', document_text = ''Revenue: 100''\<rparr>) =
     jsonify [(''question'', ''Revenue?''), (''answer'', ''Error querying GPT-4: list index out of range'')] 200
 \<and> fst (ask_question config keyless (Some (JString '' Revenue? ''))
          \<lparr>uploaded_filename = ''report.pdf'', document_text = ''Revenue: 100''\<rparr>) =
     jsonify [(''question'', ''Revenue?''), (''answer'', ''Error querying GPT-4: Missing credentials'')] 200"
proof -
  have q: "strip '' Revenue? '' = ''Revenue?''" by (simp add: strip_def isspace_def)
  from completion_failure_is_answer
    [of "\<lparr>uploaded_filename = ''report.pdf'', document_text = ''Revenue: 100''\<rparr>" "'' Revenue? ''"
        offline config "''Connection error.''"]
  have 1: "fst (ask_question config offline (Some (JString '' Revenue? ''))
          \<lparr>uploaded_filename = ''report.pdf'', document_text = ''Revenue: 100''\<rparr>) =
     jsonify [(''question'', ''Revenue?''), (''answer'', ''Error querying GPT-4: Connection error.'')] 200"
    by (simp add: q services)
  from completion_failure_is_answer
    [of "\<lparr>uploaded_filename = ''report.pdf'', document_text = ''Revenue: 100''\<rparr>" "'' Revenue? ''"
        choiceless config "''list index out of range''"]
  have 2: "fst (ask_question config choiceless (Some (JString '' Revenue? ''))
          \<lparr>uploaded_filename = ''report.pdf'', document_text = ''Revenue: 100''\<rparr>) =
     jsonify [(''question'', ''Revenue?''), (''answer'', ''Error querying GPT-4: list index out of range'')] 200"
    by (simp add: q services)
  from completion_failure_is_answer
    [of "\<lparr>uploaded_filename = ''report.pdf'', document_text = ''Revenue: 100''\<rparr>" "'' Revenue? ''"
        keyless config "''Missing credentials''"]
  have 3: "fst (ask_question config keyless (Some (JString '' Revenue? ''))
          \<lparr>uploaded_filename = ''report.pdf'', document_text = ''Revenue: 100''\<rparr>) =
     jsonify [(''question'', ''Revenue?''), (''answer'', ''Error querying GPT-4: Missing credentials'')] 200"
    by (simp add: q services)
  from 1 2 3 show ?thesis by simp
qed

text \<open>
  Claim C5. Whatever the length of the stored text, the prompt depends on its first
  2000 characters only: the answer and the requests sent are those obtained from the
  truncated text, at most one request is sent, and its messages are the fixed system
  instruction and a user message made of "Document: ", the first 2000 characters, three
  dots, and the question.
\<close>

theorem prompt_uses_first_2000_chars:
  "query_gpt4 cfg api question context_text = query_gpt4 cfg api question (take 2000 context_text)
   \<and> (\<forall>req \<in> set (snd (query_gpt4 cfg api question context_text)).
         messages req =
           [(''system'', system_prompt),
            (''user'', ''Document: '' @ take 2000 context_text @ ''...\<newline>\<newline>Question: '' @ question)])
   \<and> length (snd (query_gpt4 cfg api question context_text)) \<le> 1"
proof -
  have "messages (completion_request cfg question context_text) =
           [(''system'', system_prompt),
            (''user'', ''Document: '' @ take 2000 context_text @ ''...\<newline>\<newline>Question: '' @ question)]"
    by (simp add: completion_request_def user_prompt_def)
  then show ?thesis
    using query_gpt4_sent [of cfg api question context_text]
    by (auto simp: query_gpt4_truncates)
qed

text \<open>The theorem at a text of 2006 characters: the last six are not in the prompt.\<close>

theorem prompt_uses_first_2000_chars_witness:
  "map messages (snd (query_gpt4 config answering ''Q?'' (replicate 2000 CHR ''a'' @ ''SECRET''))) =
     [[(''system'', system_prompt),
       (''user'', ''Document: '' @ replicate 2000 CHR ''a'' @ ''...\<newline>\<newline>Question: Q?'')]]
   \<and> query_gpt4 config answering ''Q?'' (replicate 2000 CHR ''a'' @ ''SECRET'') =
       query_gpt4 config answering ''Q?'' (replicate 2000 CHR ''a'')"
  using prompt_uses_first_2000_chars [of config answering "''Q?''" "replicate 2000 CHR ''a'' @ ''SECRET''"]
  by (simp add: query_gpt4_answering completion_request_def user_prompt_def)

section \<open>Extensions in upper case\<close>

lemma lower_supported: "e \<in> set supported_extensions \<Longrightarrow> map ascii_lower e = e"
  by (auto simp: supported_extensions_def ascii_lower_def)

lemma suffix_supported:
  "e \<in> set supported_extensions \<Longrightarrow> e' \<in> set supported_extensions \<Longrightarrow> suffix e e' \<Longrightarrow> e = e'"
  by (auto simp: supported_extensions_def suffix_to_prefix)

lemma suffix_fixed: "suffix a b \<Longrightarrow> map f b = b \<Longrightarrow> map f a = a"
  by (auto simp: suffix_def)

lemma case_variant_excluded:
  assumes "case_variant v" and "endswith p v" and "e \<in> set supported_extensions"
  shows "\<not> endswith p e"
proof
  assume "endswith p e"
  from assms(1) have lv: "map ascii_lower v \<in> set supported_extensions"
    and nv: "v \<notin> set supported_extensions"
    by (simp_all add: case_variant_def)
  from endswith_comparable [OF assms(2) \<open>endswith p e\<close>] show False
  proof
    assume "suffix v e"
    then have "map ascii_lower v = v"
      using lower_supported [OF assms(3)] by (rule suffix_fixed)
    with lv nv show False by simp
  next
    assume s: "suffix e v"
    then have "suffix (map ascii_lower e) (map ascii_lower v)" by (rule map_mono_suffix)
    then have "suffix e (map ascii_lower v)" using lower_supported [OF assms(3)] by simp
    then have ev: "e = map ascii_lower v" using assms(3) lv by (rule suffix_supported [rotated 2])
    then have "length e = length v" by simp
    with s have "e = v" by (auto simp: suffix_def)
    with assms(3) nv show False by simp
  qed
qed

text \<open>
  Claim C10. The dispatch compares the end of the path character by character. When the
  path of a saved upload ends in an upper- or mixed-case variant of a supported
  extension, \<open>extract_text\<close> returns the empty string and the upload is answered 400
  "File uploaded but no readable content found".
\<close>

theorem case_variant_extension_unsupported:
  assumes "case_variant v"
    and "path = os_path_join UPLOAD_FOLDER (secure_filename env name)"
    and "endswith path v"
    and "name \<noteq> []"
    and "file_save env path = None"
  shows "extract_text env path = Inr []
       \<and> upload_file env (Some name) st =
           (jsonify [(''message'', ''File uploaded but no readable content found'')] 400,
            \<lparr>uploaded_filename = secure_filename env name, document_text = []\<rparr>)"
proof -
  have "\<not> endswith path e" if "e \<in> set supported_extensions" for e
    using assms(1,3) that by (rule case_variant_excluded)
  then have ex: "extract_text env path = Inr []"
    by (simp add: extract_text_def supported_extensions_def)
  then show ?thesis
    using upload_file_extracted [OF assms(4), of env "[]" st] assms(2,5)
    by (simp add: strip_def)
qed

text \<open>The theorem at \<open>a.PDF\<close>.\<close>

theorem case_variant_extension_unsupported_witness:
  "case_variant ''.PDF'' \<and> case_variant ''.Docx'' \<and> case_variant ''.CSV''
   \<and> endswith ''upload/a.PDF'' ''.PDF''
   \<and> upload_file disk (Some ''a.PDF'') initial_store =
       (jsonify [(''message'', ''File uploaded but no readable content found'')] 400,
        \<lparr>uploaded_filename = ''a.PDF'', document_text = []\<rparr>)"
proof -
  have v: "case_variant ''.PDF''" "case_variant ''.Docx''" "case_variant ''.CSV''"
    by (simp_all add: case_variant_def ascii_lower_def supported_extensions_def)
  have e: "endswith ''upload/a.PDF'' ''.PDF''" by (simp add: endswith_def suffix_to_prefix)
  from case_variant_extension_unsupported [OF v(1), of "''upload/a.PDF''" disk "''a.PDF''" initial_store]
  have "upload_file disk (Some ''a.PDF'') initial_store =
       (jsonify [(''message'', ''File uploaded but no readable content found'')] 400,
        \<lparr>uploaded_filename = ''a.PDF'', document_text = []\<rparr>)"
    using e by (simp add: disk_paths)
  with v e show ?thesis by simp
qed

end
